theory Spec2Isabelle
  imports Complex_Main "HOL-Library.Sublist"
begin

section \<open>JavaScript values used by the dashboard\<close>

text \<open>
  A property read from a JSON object is absent (\<open>undefined\<close>), \<open>null\<close>, or a value.
  The operator \<open>??\<close> falls through on \<open>null\<close> and \<open>undefined\<close> only.
  Numbers are modelled as exact reals: rounding of IEEE doubles and \<open>NaN\<close> are
  outside the model.
\<close>

datatype 'a js = Undefined | Null | Val 'a

definition nullish :: "'a js \<Rightarrow> bool" where
  "nullish v = (v = Null \<or> v = Undefined)"

text \<open>\<open>a ?? b\<close>\<close>

definition coalesce :: "'a js \<Rightarrow> 'a js \<Rightarrow> 'a js" where
  "coalesce a b = (if nullish a then b else a)"

text \<open>
  \<open>parseFloat(v)\<close> on a number is that number. Every call in the tables is of the form
  \<open>parseFloat(a ?? b ?? 0)\<close>, whose argument is never \<open>null\<close> or \<open>undefined\<close>
  (lemma \<open>coalesce_zero_present\<close> below), so the last two equations, where JavaScript
  yields \<open>NaN\<close>, are never reached.
\<close>

fun parseFloat :: "real js \<Rightarrow> real" where
  "parseFloat (Val r) = r"
| "parseFloat Null = 0"
| "parseFloat Undefined = 0"

text \<open>\<open>x || 0\<close> on a number that may be absent.\<close>

fun num_or_zero :: "real js \<Rightarrow> real" where
  "num_or_zero (Val r) = (if r = 0 then 0 else r)"
| "num_or_zero Null = 0"
| "num_or_zero Undefined = 0"

section \<open>Paper trading panel: open and closed trades\<close>

text \<open>
  A trade row as returned by \<open>/paper/trades\<close> to the PaperTrading component. Only
  \<open>exit_price\<close> decides the classification.
\<close>

record paper_row =
  row_id :: nat
  row_symbol :: string
  entry_price :: real
  exit_price :: "real js"
  gross_pnl :: "real js"
  net_pnl :: "real js"

text \<open>\<open>trades.filter(t => t.exit_price === null || t.exit_price === undefined)\<close>\<close>

definition openTrades :: "paper_row list \<Rightarrow> paper_row list" where
  "openTrades trades = filter (\<lambda>t. exit_price t = Null \<or> exit_price t = Undefined) trades"

text \<open>\<open>trades.filter(t => t.exit_price !== null && t.exit_price !== undefined)\<close>\<close>

definition closedTrades :: "paper_row list \<Rightarrow> paper_row list" where
  "closedTrades trades = filter (\<lambda>t. exit_price t \<noteq> Null \<and> exit_price t \<noteq> Undefined) trades"

section \<open>Holdings and positions tables\<close>

text \<open>
  A holding and a position as the broker returns them; each figure may arrive under
  either of two field names.
\<close>

record holding =
  h_avgCostPrice :: "real js"
  h_averagePrice :: "real js"
  h_lastTradedPrice :: "real js"
  h_ltp :: "real js"
  h_totalQty :: "real js"
  h_quantity :: "real js"

record position =
  p_buyAvg :: "real js"
  p_avgPrice :: "real js"
  p_ltp :: "real js"
  p_lastTradedPrice :: "real js"
  p_netQty :: "real js"
  p_quantity :: "real js"

text \<open>The figures shown in one table row: quantity, average, last price, P&L.\<close>

record table_row =
  qtyv :: real
  avg :: real
  ltp :: real
  pnl :: real

definition holding_row :: "holding \<Rightarrow> table_row" where
  "holding_row h =
    (let a = parseFloat (coalesce (h_avgCostPrice h) (coalesce (h_averagePrice h) (Val 0)));
         l = parseFloat (coalesce (h_lastTradedPrice h) (coalesce (h_ltp h) (Val 0)));
         q = parseFloat (coalesce (h_totalQty h) (coalesce (h_quantity h) (Val 0)))
     in \<lparr>qtyv = q, avg = a, ltp = l, pnl = (l - a) * q\<rparr>)"

definition position_row :: "position \<Rightarrow> table_row" where
  "position_row p =
    (let a = parseFloat (coalesce (p_buyAvg p) (coalesce (p_avgPrice p) (Val 0)));
         l = parseFloat (coalesce (p_ltp p) (coalesce (p_lastTradedPrice p) (Val 0)));
         q = parseFloat (coalesce (p_netQty p) (coalesce (p_quantity p) (Val 0)))
     in \<lparr>qtyv = q, avg = a, ltp = l, pnl = (l - a) * q\<rparr>)"

text \<open>The formula of the specification: \<open>(last - avg) * net qty * sign(net qty)\<close>.\<close>

definition spec_unrealized :: "table_row \<Rightarrow> real" where
  "spec_unrealized r = (ltp r - avg r) * qtyv r * sgn (qtyv r)"

section \<open>Dashboard (App): state\<close>

text \<open>
  An identifier of the backend (an alert id, an order id, a security id) is a string
  or a number. \<open>!id\<close> holds for \<open>undefined\<close>, \<open>null\<close>, the empty string and 0.
\<close>

datatype ident = Str string | Num int

fun falsy :: "ident js \<Rightarrow> bool" where
  "falsy Undefined = True"
| "falsy Null = True"
| "falsy (Val (Str s)) = (s = [])"
| "falsy (Val (Num n)) = (n = 0)"

text \<open>\<open>a || b\<close> on identifiers and on strings.\<close>

definition or_id :: "ident js \<Rightarrow> ident js \<Rightarrow> ident js" where
  "or_id a b = (if falsy a then b else a)"

fun falsy_str :: "'a list js \<Rightarrow> bool" where
  "falsy_str Undefined = True"
| "falsy_str Null = True"
| "falsy_str (Val s) = (s = [])"

definition or_str :: "'a list js \<Rightarrow> 'a list js \<Rightarrow> 'a list js" where
  "or_str a b = (if falsy_str a then b else a)"

text \<open>An entry of \<open>/webhook/alerts\<close>; \<open>alert_body\<close> stands for its other fields.\<close>

record alert =
  alert_id :: "ident js"
  alert_body :: string

text \<open>A card of the live feed: \<open>{ ...a, _expiry: now + 20000 }\<close>.\<close>

record card =
  card_alert :: alert
  expiry :: nat

definition card_id :: "card \<Rightarrow> ident js" where
  "card_id c = alert_id (card_alert c)"

text \<open>
  An order of the order book. Its status is a JavaScript string, kept as the list of
  its Unicode code points, since \<open>toUpperCase\<close> acts on code points.
\<close>

record order =
  orderId :: "ident js"
  o_id :: "ident js"
  orderStatus :: "nat list js"
  o_status :: "nat list js"

record app_state =
  notif :: "string option"
  error :: "string option"
  orders :: "order list"
  positions :: "position list"
  holdings :: "holding list"
  liveAlerts :: "card list"
  seenAlertIds :: "ident js set"

text \<open>\<open>toast(m)\<close> sets the notification (a timer clears it four seconds later).\<close>

definition toast :: "string \<Rightarrow> app_state \<Rightarrow> app_state" where
  "toast m s = s\<lparr>notif := Some m\<rparr>"

definition app_init :: app_state where
  "app_init = \<lparr>notif = None, error = None, orders = [], positions = [], holdings = [],
     liveAlerts = [], seenAlertIds = {}\<rparr>"

section \<open>Dashboard (App): live alerts\<close>

text \<open>
  The loop of \<open>fetchAlerts\<close> over the received array: an alert without id is skipped,
  an id not seen before is added to the seen-set and its alert is pushed on
  \<open>newOnes\<close> with its expiry.
\<close>

fun scan_alerts :: "nat \<Rightarrow> alert list \<Rightarrow> card list \<times> ident js set \<Rightarrow> card list \<times> ident js set" where
  "scan_alerts now [] acc = acc"
| "scan_alerts now (a # arr) (newOnes, seen) =
     (if falsy (alert_id a) then scan_alerts now arr (newOnes, seen)
      else if alert_id a \<notin> seen
        then scan_alerts now arr
               (newOnes @ [\<lparr>card_alert = a, expiry = now + 20000\<rparr>], insert (alert_id a) seen)
      else scan_alerts now arr (newOnes, seen))"

text \<open>
  The reply to \<open>GET /webhook/alerts\<close>: the request throws, or it yields the array
  \<open>r.data?.alerts || []\<close>.
\<close>

datatype alerts_reply = FetchFailed | Alerts "alert list"

text \<open>
  \<open>fetchAlerts\<close>: \<open>now\<close> is \<open>Date.now()\<close> read after the reply, \<open>upd\<close> the
  \<open>Date.now()\<close> read when the state update runs. A thrown request is caught and
  ignored.
\<close>

definition fetchAlerts :: "nat \<Rightarrow> nat \<Rightarrow> alerts_reply \<Rightarrow> app_state \<Rightarrow> app_state" where
  "fetchAlerts now upd reply s =
    (case reply of
       FetchFailed \<Rightarrow> s
     | Alerts arr \<Rightarrow>
        (let (newOnes, seen') = scan_alerts now arr ([], seenAlertIds s);
             s' = s\<lparr>seenAlertIds := seen'\<rparr>
         in if newOnes \<noteq> []
            then s'\<lparr>liveAlerts := newOnes @ filter (\<lambda>x. upd < expiry x) (liveAlerts s')\<rparr>
            else s'))"

text \<open>The sweeper: \<open>setLiveAlerts(prev => prev.filter(x => Date.now() < x._expiry))\<close>.\<close>

definition sweeper :: "nat \<Rightarrow> app_state \<Rightarrow> app_state" where
  "sweeper t s = s\<lparr>liveAlerts := filter (\<lambda>x. t < expiry x) (liveAlerts s)\<rparr>"

text \<open>
  The two timers as events: a poll (every 5 s) with its two clock readings and its
  reply, and a sweep (every 1 s) with its clock reading.
\<close>

datatype event = Poll nat nat alerts_reply | Sweep nat

fun step :: "app_state \<Rightarrow> event \<Rightarrow> app_state" where
  "step s (Poll now upd reply) = fetchAlerts now upd reply s"
| "step s (Sweep t) = sweeper t s"

definition run :: "app_state \<Rightarrow> event list \<Rightarrow> app_state" where
  "run s evs = foldl step s evs"

text \<open>The cards a single event puts on display, and those of a whole run.\<close>

fun added_by :: "app_state \<Rightarrow> event \<Rightarrow> card list" where
  "added_by s (Poll now upd (Alerts arr)) = fst (scan_alerts now arr ([], seenAlertIds s))"
| "added_by s (Poll now upd FetchFailed) = []"
| "added_by s (Sweep t) = []"

fun all_added :: "app_state \<Rightarrow> event list \<Rightarrow> card list" where
  "all_added s [] = []"
| "all_added s (e # es) = added_by s e @ all_added (step s e) es"

text \<open>The time at which an event updates the state.\<close>

fun event_time :: "event \<Rightarrow> nat" where
  "event_time (Poll now upd reply) = upd"
| "event_time (Sweep t) = t"

text \<open>
  Events in the order in which the single-threaded runtime executes them, none before
  \<open>t\<close>: clock readings never decrease.
\<close>

fun chrono :: "nat \<Rightarrow> event list \<Rightarrow> bool" where
  "chrono t [] = True"
| "chrono t (Sweep u # es) = (t \<le> u \<and> chrono u es)"
| "chrono t (Poll now upd reply # es) = (t \<le> now \<and> now \<le> upd \<and> chrono upd es)"

text \<open>What the feed shows at time \<open>T\<close>: the state left by the events up to \<open>T\<close>.\<close>

definition displayed_at :: "app_state \<Rightarrow> event list \<Rightarrow> nat \<Rightarrow> card list" where
  "displayed_at s evs T = liveAlerts (run s (takeWhile (\<lambda>e. event_time e \<le> T) evs))"

text \<open>The property that no card is on display after its expiry.\<close>

definition never_shown_expired :: "app_state \<Rightarrow> event list \<Rightarrow> nat \<Rightarrow> bool" where
  "never_shown_expired s evs T = list_all (\<lambda>x. T \<le> expiry x) (displayed_at s evs T)"

text \<open>
  A session: the sweeper fires at every full second, and the poll of every fifth
  second is answered 300 ms later with the same single alert.
\<close>

fun sweeps_from :: "nat \<Rightarrow> nat \<Rightarrow> event list" where
  "sweeps_from t 0 = []"
| "sweeps_from t (Suc n) = Sweep (t + 1000) # sweeps_from (t + 1000) n"

definition alert_a1 :: alert where
  "alert_a1 = \<lparr>alert_id = Val (Str ''a1''), alert_body = ''NIFTY BUY''\<rparr>"

definition alert_a2 :: alert where
  "alert_a2 = \<lparr>alert_id = Val (Str ''a2''), alert_body = ''NIFTY SELL''\<rparr>"

definition session_one_alert :: "event list" where
  "session_one_alert =
     Poll 300 300 (Alerts [alert_a1]) # sweeps_from 0 5
     @ Poll 5300 5300 (Alerts [alert_a1]) # sweeps_from 5000 5
     @ Poll 10300 10300 (Alerts [alert_a1]) # sweeps_from 10000 5
     @ Poll 15300 15300 (Alerts [alert_a1]) # sweeps_from 15000 5
     @ Poll 20300 20300 (Alerts [alert_a1]) # sweeps_from 20000 1"

section \<open>Dashboard (App): order book and cancellation\<close>

text \<open>An ASCII literal as code points.\<close>

definition ascii :: "string \<Rightarrow> nat list" where
  "ascii s = map of_char s"

text \<open>
  \<open>toUpperCase\<close> maps every code point to the code points of its upper case. On
  ASCII that is the shift of \<open>a\<close> to \<open>z\<close>; beyond ASCII it is the upper-case table
  of Unicode, which belongs to the runtime and is taken as the parameter \<open>tbl\<close>.
\<close>

definition upper_cp :: "(nat \<Rightarrow> nat list) \<Rightarrow> nat \<Rightarrow> nat list" where
  "upper_cp tbl c =
     (if 97 \<le> c \<and> c \<le> 122 then [c - 32] else if c < 128 then [c] else tbl c)"

definition toUpperCase :: "(nat \<Rightarrow> nat list) \<Rightarrow> nat list \<Rightarrow> nat list" where
  "toUpperCase tbl s = concat (map (upper_cp tbl) s)"

text \<open>
  The rows of that table whose result holds a letter of PENDING or OPEN: dotless i
  (U+0131) gives I, U+0149 gives U+02BC N, the ligatures U+FB01 and U+FB03 give FI and
  FFI. This excerpt leaves every other code point as it is.
\<close>

definition unicode_rows :: "nat \<Rightarrow> nat list" where
  "unicode_rows c =
     (if c = 305 then [73]
      else if c = 329 then [700, 78]
      else if c = 64257 then [70, 73]
      else if c = 64259 then [70, 70, 73]
      else [c])"

text \<open>Upper case of one ASCII code point, as a code point.\<close>

definition ascii_upper :: "nat \<Rightarrow> nat" where
  "ascii_upper c = (if 97 \<le> c \<and> c \<le> 122 then c - 32 else c)"

text \<open>\<open>s.includes(t)\<close>\<close>

fun str_includes :: "'a list \<Rightarrow> 'a list \<Rightarrow> bool" where
  "str_includes [] t = (t = [])"
| "str_includes (c # s) t = (prefix t (c # s) \<or> str_includes s t)"

text \<open>\<open>String(x)\<close>, on a message and on a status.\<close>

fun text_of :: "string js \<Rightarrow> string" where
  "text_of (Val s) = s"
| "text_of Null = ''null''"
| "text_of Undefined = ''undefined''"

fun status_string :: "nat list js \<Rightarrow> nat list" where
  "status_string (Val s) = s"
| "status_string Null = ascii ''null''"
| "status_string Undefined = ascii ''undefined''"

text \<open>\<open>String(o.orderStatus || o.status || "")\<close>\<close>

definition status_text :: "order \<Rightarrow> nat list" where
  "status_text ord = status_string (or_str (or_str (orderStatus ord) (o_status ord)) (Val []))"

text \<open>The action cell of an order row: a Cancel button bound to \<open>o.orderId || o.id\<close>, or a dash.\<close>

datatype action_cell = CancelButton "ident js" | NoAction

definition order_action :: "(nat \<Rightarrow> nat list) \<Rightarrow> order \<Rightarrow> action_cell" where
  "order_action tbl ord =
     (if str_includes (toUpperCase tbl (status_text ord)) (ascii ''PENDING'')
         \<or> str_includes (toUpperCase tbl (status_text ord)) (ascii ''OPEN'')
      then CancelButton (or_id (orderId ord) (o_id ord))
      else NoAction)"

text \<open>
  The reply to \<open>POST /order/cancel\<close>: the request throws (with the text that
  \<open>safeMsg(e.message || e)\<close> makes of the exception), or it yields
  \<open>res.data?.status\<close> and \<open>res.data?.message\<close>.
\<close>

datatype cancel_reply = CancelThrew string | CancelReply "string js" "string js"

fun cancel_succeeded :: "cancel_reply \<Rightarrow> bool" where
  "cancel_succeeded (CancelReply st msg) = (st = Val ''success'')"
| "cancel_succeeded (CancelThrew m) = False"

text \<open>The requests a handler sends to the backend, in order.\<close>

datatype request = PostOrderCancel "ident js" | GetOrders

text \<open>The check mark that ends the success toast, in UTF-8.\<close>

definition check_mark :: string where
  "check_mark = [char_of (226::nat), char_of (156::nat), char_of (133::nat)]"

text \<open>
  \<open>handleCancel(orderId)\<close>, given the answer to \<open>window.confirm\<close> and the reply of the
  backend. The refresh \<open>fetchOrders()\<close> is recorded as the request it sends.
\<close>

definition handleCancel ::
  "ident js \<Rightarrow> bool \<Rightarrow> cancel_reply \<Rightarrow> app_state \<Rightarrow> app_state \<times> request list" where
  "handleCancel oid confirmed reply s =
     (if falsy oid then (s, [])
      else if \<not> confirmed then (s, [])
      else (case reply of
              CancelReply st msg \<Rightarrow>
                (if st = Val ''success''
                 then (toast (''Order cancelled '' @ check_mark) s, [PostOrderCancel oid, GetOrders])
                 else (toast (''Cancel failed: '' @ text_of (or_str msg (Val ''Unknown''))) s,
                       [PostOrderCancel oid]))
            | CancelThrew m \<Rightarrow> (toast (''Cancel error: '' @ m) s, [PostOrderCancel oid])))"

text \<open>A click on the action cell of an order row.\<close>

definition click_action ::
  "(nat \<Rightarrow> nat list) \<Rightarrow> order \<Rightarrow> bool \<Rightarrow> cancel_reply \<Rightarrow> app_state
     \<Rightarrow> app_state \<times> request list" where
  "click_action tbl ord confirmed reply s =
     (case order_action tbl ord of
        CancelButton oid \<Rightarrow> handleCancel oid confirmed reply s
      | NoAction \<Rightarrow> (s, []))"

section \<open>Dashboard (App): order placement, new and old handler\<close>

record instrument =
  tradingSymbol :: string
  securityId :: "ident js"
  security_id :: "ident js"

text \<open>
  The value of the price field, an \<open><input type="number">\<close>: the empty string (also the
  initial state) or the text of a number.
\<close>

datatype price_text = Blank | Numeric real

record order_form =
  selectedInstrument :: "instrument option"
  segment :: string
  side :: string
  qty :: real
  orderType :: string
  price :: price_text
  productType :: string
  validity :: string

text \<open>The query parameters of \<open>POST /order/place\<close>.\<close>

record place_params =
  pp_symbol :: string
  pp_security_id :: "ident js"
  pp_segment :: string
  pp_side :: string
  pp_qty :: real
  pp_order_type :: string
  pp_price :: real
  pp_product_type :: string
  pp_validity :: string

text \<open>\<open>Number(price)\<close>\<close>

fun Number :: "price_text \<Rightarrow> real" where
  "Number Blank = 0"
| "Number (Numeric r) = r"

text \<open>\<open>x || 0\<close> on a number\<close>

definition or_zero :: "real \<Rightarrow> real" where
  "or_zero x = (if x = 0 then 0 else x)"

text \<open>\<open>parseFloat(price || 0)\<close>: the empty string is falsy and gives way to 0.\<close>

fun parseFloat_text :: "price_text \<Rightarrow> real" where
  "parseFloat_text Blank = 0"
| "parseFloat_text (Numeric r) = r"

text \<open>
  The reply to \<open>GET /resolve-symbol\<close>: \<open>String(r.data.inst.securityId)\<close>, or a failure
  (the request throws or carries no instrument).
\<close>

datatype resolve_reply = ResolveFailed | Resolved string

text \<open>
  The new \<open>handlePlaceOrder\<close> up to the request it sends: \<open>None\<close> when it returns
  without placing an order.
\<close>

definition handlePlaceOrder :: "resolve_reply \<Rightarrow> order_form \<Rightarrow> place_params option" where
  "handlePlaceOrder rr f =
     (case selectedInstrument f of
        None \<Rightarrow> None
      | Some inst \<Rightarrow>
         (let sid0 = coalesce (securityId inst) (security_id inst);
              sid = (if falsy sid0
                     then (case rr of Resolved str \<Rightarrow> Some (Val (Str str)) | ResolveFailed \<Rightarrow> None)
                     else Some sid0)
          in case sid of
               None \<Rightarrow> None
             | Some i \<Rightarrow>
                 Some \<lparr>pp_symbol = tradingSymbol inst, pp_security_id = i, pp_segment = segment f,
                       pp_side = side f, pp_qty = qty f, pp_order_type = orderType f,
                       pp_price = or_zero (Number (price f)),
                       pp_product_type = productType f, pp_validity = validity f\<rparr>))"

text \<open>The old \<open>handlePlaceOrder\<close>, likewise.\<close>

definition handlePlaceOrder_old :: "order_form \<Rightarrow> place_params option" where
  "handlePlaceOrder_old f =
     (case selectedInstrument f of
        None \<Rightarrow> None
      | Some inst \<Rightarrow>
          Some \<lparr>pp_symbol = tradingSymbol inst, pp_security_id = securityId inst,
                pp_segment = segment f, pp_side = side f, pp_qty = qty f,
                pp_order_type = orderType f,
                pp_price = (if orderType f = ''LIMIT'' then parseFloat_text (price f) else 0),
                pp_product_type = productType f, pp_validity = validity f\<rparr>)"

text \<open>
  A form in which a limit price of 105 was typed before the order type was switched
  back to MARKET (the price field is then hidden and keeps its value).
\<close>

definition form_market_after_limit :: order_form where
  "form_market_after_limit =
     \<lparr>selectedInstrument = Some \<lparr>tradingSymbol = ''TCS'', securityId = Val (Str ''11536''),
                                  security_id = Val (Str ''11536'')\<rparr>,
      segment = ''NSE_EQ'', side = ''BUY'', qty = 1, orderType = ''MARKET'',
      price = Numeric 105, productType = ''DELIVERY'', validity = ''DAY''\<rparr>"

text \<open>A form whose instrument carries its id under \<open>security_id\<close> only.\<close>

definition form_security_id_only :: order_form where
  "form_security_id_only =
     \<lparr>selectedInstrument = Some \<lparr>tradingSymbol = ''TCS'', securityId = Undefined,
                                  security_id = Val (Str ''11536'')\<rparr>,
      segment = ''NSE_EQ'', side = ''BUY'', qty = 1, orderType = ''LIMIT'',
      price = Numeric 3500, productType = ''DELIVERY'', validity = ''DAY''\<rparr>"

text \<open>A limit order on an instrument that carries \<open>securityId\<close>.\<close>

definition form_limit :: order_form where
  "form_limit =
     \<lparr>selectedInstrument = Some \<lparr>tradingSymbol = ''TCS'', securityId = Val (Str ''11536''),
                                  security_id = Val (Str ''11536'')\<rparr>,
      segment = ''NSE_EQ'', side = ''SELL'', qty = 2, orderType = ''LIMIT'',
      price = Numeric 3500, productType = ''INTRADAY'', validity = ''IOC''\<rparr>"

section \<open>Paper ledger and FIFO matching engine (backend)\<close>

text \<open>
  Modelled from the spec: the backend that keeps the paper ledger (trade log, matching
  engine, snapshot and clear) is not among the sources; only the panels that display
  its answers are. Every definition of this section follows sections 3 and 4.4 of the
  specification. Fees and the unrealized figures, which need a charge schedule and a
  price feed, are left out.
\<close>

datatype trade_side = BUY | SELL

text \<open>
  Modelled from the spec: the direction sign of the absent engine, positive for a long
  opening lot, negative for a short one.
\<close>

fun dir_sign :: "trade_side \<Rightarrow> real" where
  "dir_sign BUY = 1"
| "dir_sign SELL = - 1"

record trade =
  trade_id :: nat
  trade_symbol :: string
  trade_side :: trade_side
  trade_qty :: nat
  exec_price :: real

text \<open>
  Modelled from the spec: an unmatched opening lot of the absent engine, with its price
  and the trade it came from; and a round trip.
\<close>

record lot =
  lot_trade_id :: nat
  lot_side :: trade_side
  lot_qty :: nat
  lot_price :: real

record round_trip =
  rt_symbol :: string
  rt_qty :: nat
  rt_entry_price :: real
  rt_exit_price :: real
  rt_pnl_gross :: real
  rt_entry_trade_id :: nat
  rt_exit_trade_id :: nat

text \<open>
  Modelled from the spec: the matching step of the absent engine. A reducing trade is
  matched against the oldest unmatched lots first, a lot is split when the remaining
  quantity of the trade is smaller, and each match yields a round trip with gross P&L
  (exit price - entry price) * matched quantity * direction sign. The result is the
  round trips, the lots left, and the quantity of the trade left unmatched.
\<close>

fun match_lots :: "trade \<Rightarrow> nat \<Rightarrow> lot list \<Rightarrow> round_trip list \<times> lot list \<times> nat" where
  "match_lots t left [] = ([], [], left)"
| "match_lots t left (l # ls) =
     (if left = 0 then ([], l # ls, 0)
      else
        (let m = min left (lot_qty l);
             rt = \<lparr>rt_symbol = trade_symbol t, rt_qty = m, rt_entry_price = lot_price l,
                   rt_exit_price = exec_price t,
                   rt_pnl_gross = (exec_price t - lot_price l) * real m * dir_sign (lot_side l),
                   rt_entry_trade_id = lot_trade_id l, rt_exit_trade_id = trade_id t\<rparr>
         in if m < lot_qty l
            then ([rt], l\<lparr>lot_qty := lot_qty l - m\<rparr> # ls, left - m)
            else (case match_lots t (left - m) ls of
                    (rts, ls', left') \<Rightarrow> (rt # rts, ls', left'))))"

text \<open>
  Modelled from the spec: the derived state of the absent engine, the queue of
  unmatched lots of each instrument and the round trips.
\<close>

record book =
  lots :: "string \<Rightarrow> lot list"
  closed :: "round_trip list"

definition empty_book :: book where
  "empty_book = \<lparr>lots = (\<lambda>sym. []), closed = []\<rparr>"

definition lot_of :: "trade \<Rightarrow> nat \<Rightarrow> lot" where
  "lot_of t q = \<lparr>lot_trade_id = trade_id t, lot_side = trade_side t, lot_qty = q,
                  lot_price = exec_price t\<rparr>"

text \<open>
  Modelled from the spec: \<open>record(Trade)\<close> of the absent engine. A trade in the
  direction of the open position (or on a flat instrument) is enqueued as a new
  opening lot; an opposing trade is matched first-in first-out, and what exceeds the
  open quantity opens a lot in the new direction.
\<close>

definition record_trade :: "trade \<Rightarrow> book \<Rightarrow> book" where
  "record_trade t b =
     (case lots b (trade_symbol t) of
        [] \<Rightarrow> b\<lparr>lots := (lots b)(trade_symbol t := [lot_of t (trade_qty t)])\<rparr>
      | l # ls \<Rightarrow>
          (if lot_side l = trade_side t
           then b\<lparr>lots := (lots b)(trade_symbol t := (l # ls) @ [lot_of t (trade_qty t)])\<rparr>
           else (case match_lots t (trade_qty t) (l # ls) of
                   (rts, ls', left) \<Rightarrow>
                     b\<lparr>lots := (lots b)(trade_symbol t :=
                                   (if 0 < left then ls' @ [lot_of t left] else ls')),
                       closed := closed b @ rts\<rparr>)))"

text \<open>
  Modelled from the spec: the aggregates are functions of the trade log, recomputed
  by replaying it.
\<close>

definition replay :: "trade list \<Rightarrow> book" where
  "replay trs = foldl (\<lambda>b t. record_trade t b) empty_book trs"

text \<open>
  Modelled from the spec: an open position of the absent ledger, with its net signed
  quantity and the volume-weighted average cost of its open lots.
\<close>

record sym_row =
  sr_symbol :: string
  sr_position :: int
  sr_avg_cost :: real

definition net_qty :: "lot list \<Rightarrow> int" where
  "net_qty ls = sum_list (map (\<lambda>l. if lot_side l = BUY then int (lot_qty l) else - int (lot_qty l)) ls)"

definition avg_cost :: "lot list \<Rightarrow> real" where
  "avg_cost ls =
     (if sum_list (map lot_qty ls) = 0 then 0
      else sum_list (map (\<lambda>l. real (lot_qty l) * lot_price l) ls) / real (sum_list (map lot_qty ls)))"

definition open_positions :: "trade list \<Rightarrow> sym_row list" where
  "open_positions trs =
     map (\<lambda>sym. \<lparr>sr_symbol = sym, sr_position = net_qty (lots (replay trs) sym),
                  sr_avg_cost = avg_cost (lots (replay trs) sym)\<rparr>)
         (filter (\<lambda>sym. lots (replay trs) sym \<noteq> []) (remdups (map trade_symbol trs)))"

record aggregates =
  realized_gross :: real

text \<open>The body of a reply to \<open>GET /paper/trades\<close>, as the PaperTrades panel reads it.\<close>

record trades_reply =
  reply_status :: string
  raw_trades :: "trade list js"
  paired_trades :: "round_trip list js"
  per_symbol :: "sym_row list js"
  overall :: "aggregates js"

text \<open>
  Modelled from the spec: \<open>snapshot()\<close> of the absent ledger, as the reply of the
  query endpoint.
\<close>

definition snapshot :: "trade list \<Rightarrow> trades_reply" where
  "snapshot trs =
     \<lparr>reply_status = ''success'', raw_trades = Val trs,
      paired_trades = Val (closed (replay trs)),
      per_symbol = Val (open_positions trs),
      overall = Val \<lparr>realized_gross = sum_list (map rt_pnl_gross (closed (replay trs)))\<rparr>\<rparr>"

text \<open>Modelled from the spec: \<open>clear()\<close> of the absent ledger wipes the trade log.\<close>

definition clear :: "trade list \<Rightarrow> trade list" where
  "clear trs = []"

section \<open>Paper trading panel (PaperTrades)\<close>

record pt_view =
  pt_trades :: "trade list"
  pt_pairedTrades :: "round_trip list"
  pt_perSymbol :: "sym_row list"
  pt_summary :: "aggregates option"
  pt_loading :: bool

text \<open>\<open>x || []\<close> on an array and \<open>x || null\<close> on an object: both are truthy when present.\<close>

fun or_empty :: "'a list js \<Rightarrow> 'a list" where
  "or_empty (Val xs) = xs"
| "or_empty Null = []"
| "or_empty Undefined = []"

fun or_null :: "'a js \<Rightarrow> 'a option" where
  "or_null (Val x) = Some x"
| "or_null Null = None"
| "or_null Undefined = None"

text \<open>
  \<open>fetchTrades\<close> of PaperTrades.jsx, given the reply (\<open>None\<close> when the request throws,
  which is caught and ignored).
\<close>

definition fetchTrades :: "trades_reply option \<Rightarrow> pt_view \<Rightarrow> pt_view" where
  "fetchTrades r v =
     (case r of
        None \<Rightarrow> v\<lparr>pt_loading := False\<rparr>
      | Some d \<Rightarrow>
          (if reply_status d = ''success''
           then v\<lparr>pt_trades := or_empty (raw_trades d),
                  pt_pairedTrades := or_empty (paired_trades d),
                  pt_perSymbol := or_empty (per_symbol d),
                  pt_summary := or_null (overall d),
                  pt_loading := False\<rparr>
           else v\<lparr>pt_loading := False\<rparr>))"

text \<open>The panel together with the ledger it talks to.\<close>

record paper_sys =
  ledger :: "trade list"
  panel :: pt_view

text \<open>Whether a request reaches the backend and its reply the panel.\<close>

datatype net = Lost | Delivered

text \<open>
  The outcome of \<open>POST /paper/clear\<close>: the request throws (with the text of the
  exception) and the ledger is untouched; the backend answers with a status other than
  success and the ledger is untouched; or the backend clears the ledger and answers
  success.
\<close>

datatype clear_outcome = ClearThrew string | ClearRefused | ClearDone

text \<open>What the user sees and what is sent, in order.\<close>

datatype ui_effect = ConfirmDialog string | PostPaperClear | GetPaperTrades | AlertDialog string

definition clear_question :: string where
  "clear_question = ''Clear ALL paper trades? This cannot be undone.''"

definition refetch :: "net \<Rightarrow> paper_sys \<Rightarrow> paper_sys" where
  "refetch n sy =
     sy\<lparr>panel := fetchTrades (case n of Lost \<Rightarrow> None | Delivered \<Rightarrow> Some (snapshot (ledger sy)))
                     (panel sy)\<rparr>"

text \<open>\<open>clearTrades\<close> of PaperTrades.jsx, given the answer to \<open>confirm\<close>.\<close>

definition clearTrades ::
  "bool \<Rightarrow> clear_outcome \<Rightarrow> net \<Rightarrow> paper_sys \<Rightarrow> paper_sys \<times> ui_effect list" where
  "clearTrades confirmed outcome n sy =
     (if \<not> confirmed then (sy, [ConfirmDialog clear_question])
      else (case outcome of
              ClearThrew e \<Rightarrow>
                (sy, [ConfirmDialog clear_question, PostPaperClear,
                      AlertDialog (''Clear failed: '' @ e)])
            | ClearRefused \<Rightarrow>
                (sy, [ConfirmDialog clear_question, PostPaperClear, AlertDialog ''Clear failed''])
            | ClearDone \<Rightarrow>
                (refetch n (sy\<lparr>ledger := clear (ledger sy)\<rparr>),
                 [ConfirmDialog clear_question, PostPaperClear,
                  AlertDialog ''Paper trades cleared'', GetPaperTrades])))"

section \<open>Paper trading panel (PaperTrading)\<close>

text \<open>The body of a reply to \<open>GET /paper/trades\<close>, as the PaperTrading panel reads it.\<close>

record rows_reply =
  r_trades :: "paper_row list js"
  cumulative_net :: "real js"
  cumulative_gross :: "real js"

record pt2_view =
  pt2_trades :: "paper_row list"
  cumNet :: real
  cumGross :: real
  pt2_loading :: bool

text \<open>
  \<open>fetchTrades\<close> of the PaperTrading panel, given \<open>r.data\<close> (\<open>None\<close> when the request
  throws or carries no body).
\<close>

definition fetchTrades2 :: "rows_reply option \<Rightarrow> pt2_view \<Rightarrow> pt2_view" where
  "fetchTrades2 r v =
     (case r of
        None \<Rightarrow> v\<lparr>pt2_loading := False\<rparr>
      | Some d \<Rightarrow> v\<lparr>pt2_trades := or_empty (r_trades d),
                     cumNet := num_or_zero (cumulative_net d),
                     cumGross := num_or_zero (cumulative_gross d),
                     pt2_loading := False\<rparr>)"

record paper_sys2 =
  ledger2 :: "paper_row list"
  panel2 :: pt2_view

text \<open>
  Modelled from the spec: the reply of the absent query endpoint in the row format
  of this panel, with the cumulative figures as sums over the rows. Clearing this
  ledger empties it.
\<close>

definition snapshot2 :: "paper_row list \<Rightarrow> rows_reply" where
  "snapshot2 trs =
     \<lparr>r_trades = Val trs,
      cumulative_net = Val (sum_list (map (\<lambda>t. num_or_zero (net_pnl t)) trs)),
      cumulative_gross = Val (sum_list (map (\<lambda>t. num_or_zero (gross_pnl t)) trs))\<rparr>"

definition refetch2 :: "net \<Rightarrow> paper_sys2 \<Rightarrow> paper_sys2" where
  "refetch2 n sy =
     sy\<lparr>panel2 := fetchTrades2 (case n of Lost \<Rightarrow> None | Delivered \<Rightarrow> Some (snapshot2 (ledger2 sy)))
                      (panel2 sy)\<rparr>"

text \<open>
  \<open>clearTrades\<close> of the PaperTrading panel: any reply that does not throw counts as
  cleared.
\<close>

definition clearTrades2 ::
  "bool \<Rightarrow> clear_outcome \<Rightarrow> net \<Rightarrow> paper_sys2 \<Rightarrow> paper_sys2 \<times> ui_effect list" where
  "clearTrades2 confirmed outcome n sy =
     (if \<not> confirmed then (sy, [ConfirmDialog clear_question])
      else (case outcome of
              ClearThrew e \<Rightarrow>
                (sy, [ConfirmDialog clear_question, PostPaperClear,
                      AlertDialog (''Clear failed: '' @ e)])
            | ClearRefused \<Rightarrow>
                (refetch2 n sy,
                 [ConfirmDialog clear_question, PostPaperClear,
                  AlertDialog ''Paper trades cleared'', GetPaperTrades])
            | ClearDone \<Rightarrow>
                (refetch2 n (sy\<lparr>ledger2 := []\<rparr>),
                 [ConfirmDialog clear_question, PostPaperClear,
                  AlertDialog ''Paper trades cleared'', GetPaperTrades])))"

text \<open>The trades of the example: BUY 10 at 100, BUY 5 at 102, SELL 12 at 110.\<close>

definition example_trades :: "trade list" where
  "example_trades =
     [\<lparr>trade_id = 1, trade_symbol = ''NIFTY'', trade_side = BUY, trade_qty = 10, exec_price = 100\<rparr>,
      \<lparr>trade_id = 2, trade_symbol = ''NIFTY'', trade_side = BUY, trade_qty = 5, exec_price = 102\<rparr>,
      \<lparr>trade_id = 3, trade_symbol = ''NIFTY'', trade_side = SELL, trade_qty = 12, exec_price = 110\<rparr>]"

text \<open>A PaperTrading panel that shows the two rows of its ledger, one open and one closed.\<close>

definition example_rows :: "paper_row list" where
  "example_rows =
     [\<lparr>row_id = 1, row_symbol = ''NIFTY'', entry_price = 100, exit_price = Null,
       gross_pnl = Null, net_pnl = Null\<rparr>,
      \<lparr>row_id = 2, row_symbol = ''NIFTY'', entry_price = 100, exit_price = Val 110,
       gross_pnl = Val 100, net_pnl = Val (- 500)\<rparr>]"

definition example_sys2 :: paper_sys2 where
  "example_sys2 =
     \<lparr>ledger2 = example_rows,
      panel2 = \<lparr>pt2_trades = example_rows, cumNet = - 500, cumGross = 100, pt2_loading = False\<rparr>\<rparr>"

definition empty_panel :: pt_view where
  "empty_panel = \<lparr>pt_trades = [], pt_pairedTrades = [], pt_perSymbol = [], pt_summary = None,
                   pt_loading = False\<rparr>"

section \<open>Lemmas on the live alerts\<close>

lemma coalesce_zero_present: "\<not> nullish (coalesce a (coalesce b (Val 0)))"
  by (simp add: coalesce_def nullish_def)

lemma sweeps_from_numeral:
  "sweeps_from t (numeral k) = Sweep (t + 1000) # sweeps_from (t + 1000) (pred_numeral k)"
  by (simp add: numeral_eq_Suc)

lemma scan_alerts_inv:
  "scan_alerts now arr (acc, seen) = (ns, seen') \<Longrightarrow>
   \<exists>new. ns = acc @ new \<and> seen' = seen \<union> card_id ` set new \<and> distinct (map card_id new)
     \<and> card_id ` set new \<inter> seen = {}
     \<and> (\<forall>c\<in>set new. \<not> falsy (card_id c) \<and> expiry c = now + 20000 \<and> card_alert c \<in> set arr)"
proof (induction arr arbitrary: acc seen)
  case Nil
  then show ?case by simp
next
  case (Cons a arr)
  show ?case
  proof (cases "falsy (alert_id a) \<or> alert_id a \<in> seen")
    case True
    with Cons.prems have "scan_alerts now arr (acc, seen) = (ns, seen')" by (auto split: if_splits)
    from Cons.IH [OF this] show ?thesis by auto
  next
    case False
    let ?c = "\<lparr>card_alert = a, expiry = now + 20000\<rparr>"
    from False Cons.prems
    have "scan_alerts now arr (acc @ [?c], insert (alert_id a) seen) = (ns, seen')" by auto
    from Cons.IH [OF this] obtain new where
      n: "ns = (acc @ [?c]) @ new" "seen' = insert (alert_id a) seen \<union> card_id ` set new"
         "distinct (map card_id new)" "card_id ` set new \<inter> insert (alert_id a) seen = {}"
         "\<forall>c\<in>set new. \<not> falsy (card_id c) \<and> expiry c = now + 20000 \<and> card_alert c \<in> set arr"
      by blast
    have "ns = acc @ (?c # new)" using n(1) by simp
    moreover have "seen' = seen \<union> card_id ` set (?c # new)"
      using n(2) by (auto simp: card_id_def)
    moreover have "distinct (map card_id (?c # new))"
      using n(3,4) by (auto simp: card_id_def)
    moreover have "card_id ` set (?c # new) \<inter> seen = {}"
      using n(4) False by (auto simp: card_id_def)
    moreover have "\<forall>c\<in>set (?c # new). \<not> falsy (card_id c) \<and> expiry c = now + 20000 \<and> card_alert c \<in> set (a # arr)"
      using n(5) False by (auto simp: card_id_def)
    ultimately show ?thesis by blast
  qed
qed

lemma added_by_props:
  "distinct (map card_id (added_by s e))
   \<and> card_id ` set (added_by s e) \<inter> seenAlertIds s = {}
   \<and> seenAlertIds (step s e) = seenAlertIds s \<union> card_id ` set (added_by s e)
   \<and> (\<forall>c\<in>set (added_by s e). \<not> falsy (card_id c))
   \<and> set (liveAlerts (step s e)) \<subseteq> set (liveAlerts s) \<union> set (added_by s e)"
proof (cases e)
  case (Sweep t)
  then show ?thesis by (auto simp: sweeper_def)
next
  case (Poll now upd reply)
  show ?thesis
  proof (cases reply)
    case FetchFailed
    with Poll show ?thesis by (simp add: fetchAlerts_def)
  next
    case (Alerts arr)
    obtain ns seen' where sc: "scan_alerts now arr ([], seenAlertIds s) = (ns, seen')"
      by (cases "scan_alerts now arr ([], seenAlertIds s)")
    from scan_alerts_inv [OF sc] have
      p: "seen' = seenAlertIds s \<union> card_id ` set ns" "distinct (map card_id ns)"
         "card_id ` set ns \<inter> seenAlertIds s = {}" "\<forall>c\<in>set ns. \<not> falsy (card_id c)"
      by auto
    have a: "added_by s e = ns" using Poll Alerts sc by simp
    have st: "seenAlertIds (step s e) = seen'"
      using Poll Alerts sc by (simp add: fetchAlerts_def Let_def)
    have lv: "set (liveAlerts (step s e)) \<subseteq> set (liveAlerts s) \<union> set ns"
      using Poll Alerts sc by (auto simp: fetchAlerts_def Let_def)
    show ?thesis unfolding a st using p lv by simp
  qed
qed

lemma run_Cons: "run s (e # es) = run (step s e) es"
  by (simp add: run_def)

lemma run_append: "run s (xs @ ys) = run (run s xs) ys"
  by (simp add: run_def)

lemma all_added_props:
  "distinct (map card_id (all_added s evs))
   \<and> card_id ` set (all_added s evs) \<inter> seenAlertIds s = {}
   \<and> seenAlertIds s \<subseteq> seenAlertIds (run s evs)
   \<and> (\<forall>c\<in>set (all_added s evs). \<not> falsy (card_id c))
   \<and> set (liveAlerts (run s evs)) \<subseteq> set (liveAlerts s) \<union> set (all_added s evs)"
proof (induction evs arbitrary: s)
  case Nil
  then show ?case by (simp add: run_def)
next
  case (Cons e es)
  note h = added_by_props [of s e]
  note ih = Cons.IH [of "step s e"]
  have d: "distinct (map card_id (all_added s (e # es)))"
    using h ih by auto
  have i: "card_id ` set (all_added s (e # es)) \<inter> seenAlertIds s = {}"
    using h ih by auto
  have m: "seenAlertIds s \<subseteq> seenAlertIds (run s (e # es))"
    using h ih by (auto simp: run_Cons)
  have f: "\<forall>c\<in>set (all_added s (e # es)). \<not> falsy (card_id c)"
    using h ih by auto
  have l: "set (liveAlerts (run s (e # es))) \<subseteq> set (liveAlerts s) \<union> set (all_added s (e # es))"
    using h ih by (auto simp: run_Cons)
  from d i m f l show ?case by blast
qed

lemma chrono_lower: "chrono u evs \<Longrightarrow> e \<in> set evs \<Longrightarrow> u \<le> event_time e"
proof (induction u evs rule: chrono.induct)
  case (1 t)
  then show ?case by simp
next
  case (2 t u es)
  then show ?case by auto
next
  case (3 t now upd reply es)
  then show ?case by auto
qed

lemma chrono_append: "chrono u (xs @ ys) \<Longrightarrow> chrono u xs"
  by (induction u xs rule: chrono.induct) auto

lemma chrono_takeWhile: "chrono u evs \<Longrightarrow> chrono u (takeWhile P evs)"
  using chrono_append [of u "takeWhile P evs" "dropWhile P evs"] by simp

lemma unexpired_kept:
  "chrono u evs \<Longrightarrow> t \<le> u \<Longrightarrow> \<forall>x\<in>set (liveAlerts s). t < expiry x \<Longrightarrow>
   \<forall>x\<in>set (liveAlerts (run s evs)). t < expiry x"
proof (induction u evs arbitrary: s rule: chrono.induct)
  case (1 u)
  then show ?case by (simp add: run_def)
next
  case (2 u v es)
  have "\<forall>x\<in>set (liveAlerts (step s (Sweep v))). t < expiry x"
    using "2.prems"(3) by (simp add: sweeper_def)
  moreover have "t \<le> v" using "2.prems" by simp
  moreover have "chrono v es" using "2.prems" by simp
  ultimately show ?case using "2.IH" by (simp add: run_Cons del: step.simps)
next
  case (3 u now upd reply es)
  let ?e = "Poll now upd reply"
  have tn: "t \<le> now" "t \<le> upd" "chrono upd es" using "3.prems" by auto
  have "\<forall>c\<in>set (added_by s ?e). t < expiry c"
  proof (cases reply)
    case FetchFailed
    then show ?thesis by simp
  next
    case (Alerts arr)
    obtain ns seen' where sc: "scan_alerts now arr ([], seenAlertIds s) = (ns, seen')"
      by (cases "scan_alerts now arr ([], seenAlertIds s)")
    from scan_alerts_inv [OF sc] have "\<forall>c\<in>set ns. expiry c = now + 20000" by auto
    then show ?thesis using Alerts sc tn by auto
  qed
  moreover have "set (liveAlerts (step s ?e)) \<subseteq> set (liveAlerts s) \<union> set (added_by s ?e)"
    using added_by_props [of s ?e] by blast
  ultimately have "\<forall>x\<in>set (liveAlerts (step s ?e)). t < expiry x"
    using "3.prems"(3) by blast
  then show ?case using "3.IH" tn by (simp add: run_Cons del: step.simps)
qed

lemma takeWhile_split_at_sweep:
  "chrono u evs \<Longrightarrow> Sweep t \<in> set evs \<Longrightarrow> t \<le> T \<Longrightarrow>
   \<exists>pre post. takeWhile (\<lambda>e. event_time e \<le> T) evs = pre @ Sweep t # post \<and> chrono t post"
proof (induction evs arbitrary: u)
  case Nil
  then show ?case by simp
next
  case (Cons e es)
  obtain v where ch: "chrono v es" "u \<le> event_time e" "event_time e = v"
    using Cons.prems(1) by (cases e) auto
  show ?case
  proof (cases "e = Sweep t")
    case True
    then have "takeWhile (\<lambda>e. event_time e \<le> T) (e # es)
        = [] @ Sweep t # takeWhile (\<lambda>e. event_time e \<le> T) es"
      using Cons.prems(3) by simp
    moreover have "chrono t (takeWhile (\<lambda>e. event_time e \<le> T) es)"
      using ch True chrono_takeWhile by auto
    ultimately show ?thesis by blast
  next
    case False
    then have mem: "Sweep t \<in> set es" using Cons.prems(2) by simp
    from chrono_lower [OF ch(1) mem] have "event_time e \<le> T"
      using ch(3) Cons.prems(3) by simp
    moreover from Cons.IH [OF ch(1) mem Cons.prems(3)] obtain pre post where
      "takeWhile (\<lambda>e. event_time e \<le> T) es = pre @ Sweep t # post" "chrono t post"
      by blast
    ultimately have "takeWhile (\<lambda>e. event_time e \<le> T) (e # es) = (e # pre) @ Sweep t # post"
      by simp
    then show ?thesis using \<open>chrono t post\<close> by blast
  qed
qed

lemma shown_after_sweep:
  assumes "chrono u evs" "Sweep t \<in> set evs" "t \<le> T"
  shows "\<forall>x\<in>set (displayed_at s evs T). t < expiry x"
proof -
  from takeWhile_split_at_sweep [OF assms] obtain pre post where
    tw: "takeWhile (\<lambda>e. event_time e \<le> T) evs = pre @ Sweep t # post" and c: "chrono t post"
    by blast
  have "\<forall>x\<in>set (liveAlerts (step (run s pre) (Sweep t))). t < expiry x"
    by (simp add: sweeper_def)
  from unexpired_kept [OF c _ this]
  have "\<forall>x\<in>set (liveAlerts (run (step (run s pre) (Sweep t)) post)). t < expiry x" by simp
  then show ?thesis
    by (simp add: displayed_at_def tw run_append run_Cons del: step.simps)
qed

section \<open>Lemmas on the order book and the order form\<close>

lemma includes_sublist: "str_includes s t \<longleftrightarrow> sublist t s"
  by (induction s) (simp_all add: sublist_Cons_right)

lemma sublist_map_iff: "sublist v (map f s) \<longleftrightarrow> (\<exists>w. sublist w s \<and> map f w = v)"
proof
  assume "sublist v (map f s)"
  then obtain ps ss where "map f s = ps @ v @ ss" by (auto simp: sublist_def)
  then obtain a r where a: "s = a @ r" "map f r = v @ ss"
    by (metis map_eq_append_conv)
  then obtain b c where "r = b @ c" "map f b = v"
    by (metis map_eq_append_conv)
  with a have "s = a @ b @ c" "map f b = v" by simp_all
  then show "\<exists>w. sublist w s \<and> map f w = v" by auto
next
  assume "\<exists>w. sublist w s \<and> map f w = v"
  then obtain w ps ss where "s = ps @ w @ ss" "map f w = v" by (auto simp: sublist_def)
  then have "map f s = map f ps @ v @ map f ss" by simp
  then show "sublist v (map f s)" by (metis sublist_appendI)
qed

lemma toUpperCase_ascii:
  "\<forall>c\<in>set s. c < 128 \<Longrightarrow> toUpperCase tbl s = map ascii_upper s"
  by (induction s) (auto simp: toUpperCase_def upper_cp_def ascii_upper_def)

lemma parse_agree: "or_zero (Number p) = parseFloat_text p"
  by (cases p) (simp_all add: or_zero_def)

lemma filter_key_at_most_one:
  "distinct (map f xs) \<Longrightarrow> length (filter (\<lambda>c. f c = i) xs) \<le> Suc 0"
proof (induction xs)
  case Nil
  then show ?case by simp
next
  case (Cons x xs)
  show ?case
  proof (cases "f x = i")
    case True
    have "f x \<notin> f ` set xs" using Cons.prems by simp
    then have "\<forall>y\<in>set xs. f y \<noteq> i" using True by blast
    then have "filter (\<lambda>c. f c = i) xs = []"
      by (simp add: filter_empty_conv)
    then show ?thesis using True by simp
  next
    case False
    then show ?thesis using Cons by simp
  qed
qed

section \<open>Results\<close>

text \<open>
  C1 (as stated, refuted): a short position of 5 bought at 100 and quoted at 110 is
  shown with P&L -50, while the stated formula gives +50.
\<close>

theorem C1_short_position_counterexample:
  "pnl (position_row \<lparr>p_buyAvg = Val 100, p_avgPrice = Undefined, p_ltp = Val 110,
        p_lastTradedPrice = Undefined, p_netQty = Val (-5), p_quantity = Undefined\<rparr>) = -50
   \<and> spec_unrealized (position_row \<lparr>p_buyAvg = Val 100, p_avgPrice = Undefined, p_ltp = Val 110,
        p_lastTradedPrice = Undefined, p_netQty = Val (-5), p_quantity = Undefined\<rparr>) = 50"
  by (simp add: position_row_def spec_unrealized_def coalesce_def nullish_def)

text \<open>
  C1 (amended): for every position and every holding the P&L shown is
  (last price - average cost) times the magnitude of the quantity times the sign of
  the quantity, which is (last price - average cost) times the signed quantity.
\<close>

theorem C1_pnl_signed_quantity:
  "pnl (position_row p) =
     (ltp (position_row p) - avg (position_row p)) * \<bar>qtyv (position_row p)\<bar> * sgn (qtyv (position_row p))
   \<and> pnl (holding_row h) =
     (ltp (holding_row h) - avg (holding_row h)) * \<bar>qtyv (holding_row h)\<bar> * sgn (qtyv (holding_row h))"
proof -
  have m: "\<bar>q\<bar> * sgn q = q" for q :: real
    using mult_sgn_abs [of q] by (simp add: mult.commute)
  show ?thesis
    by (simp only: position_row_def holding_row_def Let_def table_row.simps mult.assoc m)
qed

text \<open>
  C2: for BUY 10 at 100, BUY 5 at 102, SELL 12 at 110 on one instrument the engine
  pairs 10 at 100 first and then 2 at 102, leaves one open lot of 3 long at 102, and
  reports a gross P&L of 116; the panel shows these round trips after its fetch.
\<close>

theorem C2_fifo_example:
  "closed (replay example_trades) =
     [\<lparr>rt_symbol = ''NIFTY'', rt_qty = 10, rt_entry_price = 100, rt_exit_price = 110,
       rt_pnl_gross = 100, rt_entry_trade_id = 1, rt_exit_trade_id = 3\<rparr>,
      \<lparr>rt_symbol = ''NIFTY'', rt_qty = 2, rt_entry_price = 102, rt_exit_price = 110,
       rt_pnl_gross = 16, rt_entry_trade_id = 2, rt_exit_trade_id = 3\<rparr>]
   \<and> lots (replay example_trades) ''NIFTY'' =
     [\<lparr>lot_trade_id = 2, lot_side = BUY, lot_qty = 3, lot_price = 102\<rparr>]
   \<and> open_positions example_trades =
     [\<lparr>sr_symbol = ''NIFTY'', sr_position = 3, sr_avg_cost = 102\<rparr>]
   \<and> overall (snapshot example_trades) = Val \<lparr>realized_gross = 116\<rparr>
   \<and> pt_pairedTrades (fetchTrades (Some (snapshot example_trades)) empty_panel)
       = closed (replay example_trades)"
proof -
  have c: "closed (replay example_trades) =
     [\<lparr>rt_symbol = ''NIFTY'', rt_qty = 10, rt_entry_price = 100, rt_exit_price = 110,
       rt_pnl_gross = 100, rt_entry_trade_id = 1, rt_exit_trade_id = 3\<rparr>,
      \<lparr>rt_symbol = ''NIFTY'', rt_qty = 2, rt_entry_price = 102, rt_exit_price = 110,
       rt_pnl_gross = 16, rt_entry_trade_id = 2, rt_exit_trade_id = 3\<rparr>]"
    by (simp add: replay_def example_trades_def record_trade_def empty_book_def lot_of_def Let_def)
  have l: "lots (replay example_trades) ''NIFTY'' =
     [\<lparr>lot_trade_id = 2, lot_side = BUY, lot_qty = 3, lot_price = 102\<rparr>]"
    by (simp add: replay_def example_trades_def record_trade_def empty_book_def lot_of_def Let_def)
  have s: "map trade_symbol example_trades = [''NIFTY'', ''NIFTY'', ''NIFTY'']"
    by (simp add: example_trades_def)
  have p: "open_positions example_trades =
     [\<lparr>sr_symbol = ''NIFTY'', sr_position = 3, sr_avg_cost = 102\<rparr>]"
    by (simp add: open_positions_def s l net_qty_def avg_cost_def)
  have g: "overall (snapshot example_trades) = Val \<lparr>realized_gross = 116\<rparr>"
    by (simp add: snapshot_def c)
  have v: "pt_pairedTrades (fetchTrades (Some (snapshot example_trades)) empty_panel)
       = closed (replay example_trades)"
    by (simp add: fetchTrades_def snapshot_def)
  from c l p g v show ?thesis by blast
qed

text \<open>
  C3 (as stated, refuted): an alert received at 300 ms is stamped 20300; the sweep at
  20000 keeps it and the next sweep is due at 21000, so at 20999 the card is still on
  display, 699 ms after its expiry.
\<close>

theorem C3_shown_after_expiry_counterexample:
  "\<not> never_shown_expired app_init session_one_alert 20999
   \<and> map expiry (displayed_at app_init session_one_alert 20999) = [20300]"
  by (simp add: never_shown_expired_def displayed_at_def session_one_alert_def app_init_def
      run_def fetchAlerts_def sweeper_def sweeps_from_numeral alert_a1_def)

text \<open>
  C3 (amended): each newly seen alert is stamped with an expiry of receipt time plus
  20000 ms. A sweep keeps exactly the cards whose expiry is still ahead, and a poll
  that adds cards puts them in front of exactly those earlier cards whose expiry is
  still ahead; a poll that adds none leaves the feed as it is. A card still on display
  at time T, after a sweep at time t, has an expiry later than t: it outlives its
  expiry by less than the time since the last sweep, so by less than 1000 ms when the
  sweeps keep their one-second period.
\<close>

theorem C3_gone_by_first_sweep_after_expiry:
  assumes "chrono t0 evs" and "Sweep t \<in> set evs" and "t \<le> T"
  shows "(\<forall>x\<in>set (displayed_at s evs T). t < expiry x
            \<and> (T < t + 1000 \<longrightarrow> T < expiry x + 1000))
         \<and> (\<forall>c\<in>set (added_by s0 (Poll now upd reply)). expiry c = now + 20000)
         \<and> liveAlerts (step s1 (Sweep u)) = filter (\<lambda>x. u < expiry x) (liveAlerts s1)
         \<and> (added_by s0 (Poll now upd reply) \<noteq> [] \<longrightarrow>
              liveAlerts (step s0 (Poll now upd reply))
                = added_by s0 (Poll now upd reply) @ filter (\<lambda>x. upd < expiry x) (liveAlerts s0))
         \<and> (added_by s0 (Poll now upd reply) = [] \<longrightarrow>
              liveAlerts (step s0 (Poll now upd reply)) = liveAlerts s0)"
proof -
  have "\<forall>x\<in>set (displayed_at s evs T). t < expiry x"
    using shown_after_sweep [OF assms] .
  then have a: "\<forall>x\<in>set (displayed_at s evs T). t < expiry x
            \<and> (T < t + 1000 \<longrightarrow> T < expiry x + 1000)"
    by auto
  have c: "liveAlerts (step s1 (Sweep u)) = filter (\<lambda>x. u < expiry x) (liveAlerts s1)"
    by (simp add: sweeper_def)
  have b: "(\<forall>c\<in>set (added_by s0 (Poll now upd reply)). expiry c = now + 20000)
         \<and> (added_by s0 (Poll now upd reply) \<noteq> [] \<longrightarrow>
              liveAlerts (step s0 (Poll now upd reply))
                = added_by s0 (Poll now upd reply) @ filter (\<lambda>x. upd < expiry x) (liveAlerts s0))
         \<and> (added_by s0 (Poll now upd reply) = [] \<longrightarrow>
              liveAlerts (step s0 (Poll now upd reply)) = liveAlerts s0)"
  proof (cases reply)
    case FetchFailed
    then show ?thesis by (simp add: fetchAlerts_def)
  next
    case (Alerts arr)
    obtain ns seen' where sc: "scan_alerts now arr ([], seenAlertIds s0) = (ns, seen')"
      by (cases "scan_alerts now arr ([], seenAlertIds s0)")
    from scan_alerts_inv [OF sc] have "\<forall>c\<in>set ns. expiry c = now + 20000" by auto
    then show ?thesis using Alerts sc by (simp add: fetchAlerts_def)
  qed
  from a b c show ?thesis by blast
qed

theorem C3_gone_by_first_sweep_after_expiry_witness:
  "chrono 0 session_one_alert \<and> Sweep 20000 \<in> set session_one_alert \<and> (20000::nat) \<le> 20999
   \<and> displayed_at app_init session_one_alert 20999 \<noteq> []
   \<and> list_all (\<lambda>x. 20000 < expiry x \<and> 20999 < expiry x + 1000)
        (displayed_at app_init session_one_alert 20999)
   \<and> map card_id (liveAlerts (step app_init (Poll 300 300 (Alerts [alert_a1]))))
        = [Val (Str ''a1'')]
   \<and> added_by (step app_init (Poll 300 300 (Alerts [alert_a1])))
        (Poll 25300 25300 (Alerts [alert_a1, alert_a2])) \<noteq> []
   \<and> map card_id (liveAlerts (step (step app_init (Poll 300 300 (Alerts [alert_a1])))
        (Poll 25300 25300 (Alerts [alert_a1, alert_a2])))) = [Val (Str ''a2'')]
   \<and> map expiry (liveAlerts (step (step app_init (Poll 300 300 (Alerts [alert_a1])))
        (Poll 25300 25300 (Alerts [alert_a1, alert_a2])))) = [45300]"
proof -
  let ?s0 = "step app_init (Poll 300 300 (Alerts [alert_a1]))"
  let ?e = "Poll 25300 25300 (Alerts [alert_a1, alert_a2])"
  have c: "chrono 0 session_one_alert"
    by (simp add: session_one_alert_def sweeps_from_numeral alert_a1_def)
  have m: "Sweep 20000 \<in> set session_one_alert"
    by (simp add: session_one_alert_def sweeps_from_numeral alert_a1_def)
  have l: "(20000::nat) \<le> 20999" by simp
  have n: "displayed_at app_init session_one_alert 20999 \<noteq> []"
    by (simp add: displayed_at_def session_one_alert_def app_init_def
        run_def fetchAlerts_def sweeper_def sweeps_from_numeral alert_a1_def)
  have s0: "?s0 = app_init\<lparr>seenAlertIds := {Val (Str ''a1'')},
                liveAlerts := [\<lparr>card_alert = alert_a1, expiry = 20300\<rparr>]\<rparr>"
    by (simp add: fetchAlerts_def app_init_def alert_a1_def)
  have i: "map card_id (liveAlerts ?s0) = [Val (Str ''a1'')]"
    unfolding s0 by (simp add: card_id_def alert_a1_def)
  have ad: "added_by ?s0 ?e = [\<lparr>card_alert = alert_a2, expiry = 45300\<rparr>]"
    unfolding s0 by (simp add: alert_a1_def alert_a2_def)
  then have ne: "added_by ?s0 ?e \<noteq> []" by simp
  note w = C3_gone_by_first_sweep_after_expiry [OF c m l,
      where s = app_init and ?s0.0 = ?s0 and now = 25300 and upd = 25300
        and reply = "Alerts [alert_a1, alert_a2]"]
  from w have "list_all (\<lambda>x. 20000 < expiry x \<and> 20999 < expiry x + 1000)
        (displayed_at app_init session_one_alert 20999)"
    by (simp add: list_all_iff)
  moreover from w ne have eq: "liveAlerts (step ?s0 ?e)
      = added_by ?s0 ?e @ filter (\<lambda>x. 25300 < expiry x) (liveAlerts ?s0)"
    by blast
  have fl: "filter (\<lambda>x. 25300 < expiry x) (liveAlerts ?s0) = []"
    unfolding s0 by simp
  have lv: "liveAlerts (step ?s0 ?e) = [\<lparr>card_alert = alert_a2, expiry = 45300\<rparr>]"
    by (simp only: eq ad fl append_Nil2)
  have "map card_id (liveAlerts (step ?s0 ?e)) = [Val (Str ''a2'')]"
    "map expiry (liveAlerts (step ?s0 ?e)) = [45300]"
    unfolding lv by (simp_all add: card_id_def alert_a2_def)
  ultimately show ?thesis using c m l n i ne by blast
qed

text \<open>
  C4: across all polls of a run, at most one card is added to the feed for any id;
  an id once in the seen-set stays there; no added card lacks an id or carries an id
  that was already seen; and the feed shows nothing but cards that were added.
\<close>

theorem C4_each_id_added_at_most_once:
  "length (filter (\<lambda>c. card_id c = i) (all_added s evs)) \<le> 1
   \<and> seenAlertIds s \<subseteq> seenAlertIds (run s evs)
   \<and> (\<forall>c\<in>set (all_added s evs). \<not> falsy (card_id c) \<and> card_id c \<notin> seenAlertIds s)
   \<and> set (liveAlerts (run s evs)) \<subseteq> set (liveAlerts s) \<union> set (all_added s evs)"
proof -
  note p = all_added_props [of s evs]
  have "length (filter (\<lambda>c. card_id c = i) (all_added s evs)) \<le> 1"
    using p filter_key_at_most_one [of card_id "all_added s evs" i] by simp
  moreover have "\<forall>c\<in>set (all_added s evs). \<not> falsy (card_id c) \<and> card_id c \<notin> seenAlertIds s"
    using p by blast
  ultimately show ?thesis using p by blast
qed

theorem C4_each_id_added_at_most_once_witness:
  "length (filter (\<lambda>c. card_id c = Val (Str ''a1''))
     (all_added app_init
        [Poll 100 100 (Alerts [\<lparr>alert_id = Val (Str ''a1''), alert_body = ''x''\<rparr>,
                               \<lparr>alert_id = Val (Str ''a1''), alert_body = ''x''\<rparr>,
                               \<lparr>alert_id = Undefined, alert_body = ''y''\<rparr>]),
         Sweep 1000,
         Poll 5100 5100 (Alerts [\<lparr>alert_id = Val (Str ''a2''), alert_body = ''z''\<rparr>,
                                 \<lparr>alert_id = Val (Str ''a1''), alert_body = ''x''\<rparr>])])) \<le> 1
   \<and> map card_id (all_added app_init
        [Poll 100 100 (Alerts [\<lparr>alert_id = Val (Str ''a1''), alert_body = ''x''\<rparr>,
                               \<lparr>alert_id = Val (Str ''a1''), alert_body = ''x''\<rparr>,
                               \<lparr>alert_id = Undefined, alert_body = ''y''\<rparr>]),
         Sweep 1000,
         Poll 5100 5100 (Alerts [\<lparr>alert_id = Val (Str ''a2''), alert_body = ''z''\<rparr>,
                                 \<lparr>alert_id = Val (Str ''a1''), alert_body = ''x''\<rparr>])])
     = [Val (Str ''a1''), Val (Str ''a2'')]"
  using C4_each_id_added_at_most_once [of "Val (Str ''a1'')" app_init
        "[Poll 100 100 (Alerts [\<lparr>alert_id = Val (Str ''a1''), alert_body = ''x''\<rparr>,
                               \<lparr>alert_id = Val (Str ''a1''), alert_body = ''x''\<rparr>,
                               \<lparr>alert_id = Undefined, alert_body = ''y''\<rparr>]),
         Sweep 1000,
         Poll 5100 5100 (Alerts [\<lparr>alert_id = Val (Str ''a2''), alert_body = ''z''\<rparr>,
                                 \<lparr>alert_id = Val (Str ''a1''), alert_body = ''x''\<rparr>])]"]
  by (simp add: app_init_def fetchAlerts_def sweeper_def card_id_def)

text \<open>
  C5: a failed fetch of the recent alerts leaves the whole state as it was, and a run
  in which such a poll occurs ends in the same state as the run without it.
\<close>

theorem C5_failed_alert_poll_changes_nothing:
  "fetchAlerts now upd FetchFailed s = s
   \<and> run s (pre @ Poll now upd FetchFailed # post) = run s (pre @ post)"
  by (simp add: fetchAlerts_def run_def)

text \<open>
  C6: the action cell of an order row offers Cancel exactly when the upper-cased
  status text contains PENDING or OPEN, which for an ASCII status means that a
  substring of it reads PENDING or OPEN up to the case of its letters; a click on any
  other row sends nothing and changes nothing. Without an order id or without the
  confirmation the handler sends nothing and changes nothing. A confirmed request
  that throws or whose reply is not success sends the one cancel request, leaves the
  order list as it was, triggers no refresh of it, and shows the failure message
  (\<open>Cancel error:\<close> with the text of the exception, \<open>Cancel failed:\<close> with the message
  of the reply or \<open>Unknown\<close>). Only a confirmed request that succeeds refreshes the
  order list.
\<close>

theorem C6_cancel_only_pending_or_open:
  "(order_action tbl ord \<noteq> NoAction \<longleftrightarrow>
      sublist (ascii ''PENDING'') (toUpperCase tbl (status_text ord))
      \<or> sublist (ascii ''OPEN'') (toUpperCase tbl (status_text ord)))
   \<and> ((\<forall>c\<in>set (status_text ord). c < 128) \<longrightarrow>
        (order_action tbl ord \<noteq> NoAction \<longleftrightarrow>
           (\<exists>w. sublist w (status_text ord)
                \<and> (map ascii_upper w = ascii ''PENDING'' \<or> map ascii_upper w = ascii ''OPEN''))))
   \<and> (order_action tbl ord = NoAction \<longrightarrow> click_action tbl ord confirmed reply s = (s, []))
   \<and> (falsy oid \<or> \<not> confirmed \<longrightarrow> handleCancel oid confirmed reply s = (s, []))
   \<and> (\<not> cancel_succeeded reply \<longrightarrow>
        orders (fst (handleCancel oid confirmed reply s)) = orders s
        \<and> GetOrders \<notin> set (snd (handleCancel oid confirmed reply s)))
   \<and> (\<not> falsy oid \<and> confirmed \<and> \<not> cancel_succeeded reply \<longrightarrow>
        snd (handleCancel oid confirmed reply s) = [PostOrderCancel oid]
        \<and> (\<exists>m. notif (fst (handleCancel oid confirmed reply s)) = Some m
               \<and> (prefix ''Cancel failed: '' m \<or> prefix ''Cancel error: '' m)))
   \<and> (\<not> falsy oid \<and> confirmed \<longrightarrow>
        notif (fst (handleCancel oid confirmed (CancelThrew e) s)) = Some (''Cancel error: '' @ e))
   \<and> (\<not> falsy oid \<and> confirmed \<and> st \<noteq> Val ''success'' \<longrightarrow>
        notif (fst (handleCancel oid confirmed (CancelReply st msg) s))
          = Some (''Cancel failed: '' @ text_of (or_str msg (Val ''Unknown''))))
   \<and> (\<not> falsy oid \<and> confirmed \<longrightarrow>
        handleCancel oid confirmed (CancelReply (Val ''success'') msg) s
          = (toast (''Order cancelled '' @ check_mark) s, [PostOrderCancel oid, GetOrders]))"
proof -
  have a: "order_action tbl ord \<noteq> NoAction \<longleftrightarrow>
      sublist (ascii ''PENDING'') (toUpperCase tbl (status_text ord))
      \<or> sublist (ascii ''OPEN'') (toUpperCase tbl (status_text ord))"
    unfolding order_action_def includes_sublist by auto
  have a': "(\<forall>c\<in>set (status_text ord). c < 128) \<longrightarrow>
        (order_action tbl ord \<noteq> NoAction \<longleftrightarrow>
           (\<exists>w. sublist w (status_text ord)
                \<and> (map ascii_upper w = ascii ''PENDING'' \<or> map ascii_upper w = ascii ''OPEN'')))"
  proof
    assume "\<forall>c\<in>set (status_text ord). c < 128"
    then have "toUpperCase tbl (status_text ord) = map ascii_upper (status_text ord)"
      by (rule toUpperCase_ascii)
    then show "order_action tbl ord \<noteq> NoAction \<longleftrightarrow>
           (\<exists>w. sublist w (status_text ord)
                \<and> (map ascii_upper w = ascii ''PENDING'' \<or> map ascii_upper w = ascii ''OPEN''))"
      unfolding a by (simp only: sublist_map_iff) blast
  qed
  have b: "order_action tbl ord = NoAction \<longrightarrow> click_action tbl ord confirmed reply s = (s, [])"
    by (simp add: click_action_def)
  have c: "falsy oid \<or> \<not> confirmed \<longrightarrow> handleCancel oid confirmed reply s = (s, [])"
    by (auto simp: handleCancel_def)
  have d: "\<not> cancel_succeeded reply \<longrightarrow>
        orders (fst (handleCancel oid confirmed reply s)) = orders s
        \<and> GetOrders \<notin> set (snd (handleCancel oid confirmed reply s))"
    by (cases reply) (auto simp: handleCancel_def toast_def)
  have e: "\<not> falsy oid \<and> confirmed \<and> \<not> cancel_succeeded reply \<longrightarrow>
        snd (handleCancel oid confirmed reply s) = [PostOrderCancel oid]
        \<and> (\<exists>m. notif (fst (handleCancel oid confirmed reply s)) = Some m
               \<and> (prefix ''Cancel failed: '' m \<or> prefix ''Cancel error: '' m))"
    by (cases reply) (auto simp: handleCancel_def toast_def)
  have f: "\<not> falsy oid \<and> confirmed \<longrightarrow>
        notif (fst (handleCancel oid confirmed (CancelThrew e) s)) = Some (''Cancel error: '' @ e)"
    by (simp add: handleCancel_def toast_def)
  have g: "\<not> falsy oid \<and> confirmed \<and> st \<noteq> Val ''success'' \<longrightarrow>
        notif (fst (handleCancel oid confirmed (CancelReply st msg) s))
          = Some (''Cancel failed: '' @ text_of (or_str msg (Val ''Unknown'')))"
    by (simp add: handleCancel_def toast_def)
  have h: "\<not> falsy oid \<and> confirmed \<longrightarrow>
        handleCancel oid confirmed (CancelReply (Val ''success'') msg) s
          = (toast (''Order cancelled '' @ check_mark) s, [PostOrderCancel oid, GetOrders])"
    by (simp add: handleCancel_def)
  from a a' b c d e f g h show ?thesis by blast
qed

theorem C6_cancel_only_pending_or_open_witness:
  "order_action unicode_rows \<lparr>orderId = Val (Num 7), o_id = Undefined,
        orderStatus = Val (ascii ''Pending''), o_status = Undefined\<rparr> = CancelButton (Val (Num 7))
   \<and> list_all (\<lambda>c. c < 128) (status_text \<lparr>orderId = Val (Num 7), o_id = Undefined,
        orderStatus = Val (ascii ''Pending''), o_status = Undefined\<rparr>)
   \<and> sublist (ascii ''Pending'') (status_text \<lparr>orderId = Val (Num 7), o_id = Undefined,
        orderStatus = Val (ascii ''Pending''), o_status = Undefined\<rparr>)
   \<and> map ascii_upper (ascii ''Pending'') = ascii ''PENDING''
   \<and> order_action unicode_rows \<lparr>orderId = Val (Num 9), o_id = Undefined,
        orderStatus = Val [112, 101, 110, 100, 305, 110, 103], o_status = Undefined\<rparr>
       = CancelButton (Val (Num 9))
   \<and> order_action unicode_rows \<lparr>orderId = Val (Num 8), o_id = Undefined,
        orderStatus = Val (ascii ''TRADED''), o_status = Undefined\<rparr> = NoAction
   \<and> click_action unicode_rows \<lparr>orderId = Val (Num 8), o_id = Undefined,
        orderStatus = Val (ascii ''TRADED''), o_status = Undefined\<rparr> True
         (CancelReply (Val ''success'') Undefined) app_init = (app_init, [])
   \<and> handleCancel (Val (Num 7)) False (CancelReply (Val ''success'') Undefined) app_init
       = (app_init, [])
   \<and> \<not> falsy (Val (Num 7))
   \<and> \<not> cancel_succeeded (CancelReply (Val ''failure'') (Val ''not cancellable''))
   \<and> snd (handleCancel (Val (Num 7)) True
             (CancelReply (Val ''failure'') (Val ''not cancellable'')) app_init)
        = [PostOrderCancel (Val (Num 7))]
   \<and> notif (fst (handleCancel (Val (Num 7)) True
             (CancelReply (Val ''failure'') (Val ''not cancellable'')) app_init))
        = Some ''Cancel failed: not cancellable''
   \<and> orders (fst (handleCancel (Val (Num 7)) True
             (CancelReply (Val ''failure'') (Val ''not cancellable'')) app_init)) = orders app_init
   \<and> notif (fst (handleCancel (Val (Num 7)) True (CancelThrew ''timeout'') app_init))
        = Some ''Cancel error: timeout''"
proof -
  let ?p = "\<lparr>orderId = Val (Num 7), o_id = Undefined,
              orderStatus = Val (ascii ''Pending''), o_status = Undefined\<rparr>"
  let ?i = "\<lparr>orderId = Val (Num 9), o_id = Undefined,
              orderStatus = Val [112, 101, 110, 100, 305, 110, 103], o_status = Undefined\<rparr>"
  let ?t = "\<lparr>orderId = Val (Num 8), o_id = Undefined,
              orderStatus = Val (ascii ''TRADED''), o_status = Undefined\<rparr>"
  let ?r = "CancelReply (Val ''failure'') (Val ''not cancellable'')"
  let ?ok = "CancelReply (Val ''success'') Undefined"
  have sp: "status_text ?p = ascii ''Pending''"
    by (simp add: status_text_def or_str_def ascii_def)
  have p: "order_action unicode_rows ?p = CancelButton (Val (Num 7))"
    by (simp add: order_action_def status_text_def or_str_def or_id_def toUpperCase_def
        upper_cp_def ascii_def)
  have pa: "list_all (\<lambda>c. c < 128) (status_text ?p)"
    by (simp add: sp) (simp add: ascii_def)
  have ps: "sublist (ascii ''Pending'') (status_text ?p)"
    by (simp add: sp)
  have pu: "map ascii_upper (ascii ''Pending'') = ascii ''PENDING''"
    by (simp add: ascii_def ascii_upper_def)
  have i: "order_action unicode_rows ?i = CancelButton (Val (Num 9))"
    by (simp add: order_action_def status_text_def or_str_def or_id_def toUpperCase_def
        upper_cp_def ascii_def unicode_rows_def)
  have t: "order_action unicode_rows ?t = NoAction"
    by (simp add: order_action_def status_text_def or_str_def or_id_def toUpperCase_def
        upper_cp_def ascii_def)
  have r: "\<not> cancel_succeeded ?r" by simp
  have nf: "\<not> falsy (Val (Num 7))" by simp
  have m: "text_of (or_str (Val ''not cancellable'') (Val ''Unknown'')) = ''not cancellable''"
    by (simp add: or_str_def)
  from C6_cancel_only_pending_or_open
         [where tbl = unicode_rows and ord = ?t and confirmed = True and reply = ?ok
            and s = app_init] t
  have k: "click_action unicode_rows ?t True ?ok app_init = (app_init, [])"
    by blast
  from C6_cancel_only_pending_or_open
         [where oid = "Val (Num 7)" and confirmed = False and reply = ?ok and s = app_init]
  have dc: "handleCancel (Val (Num 7)) False ?ok app_init = (app_init, [])"
    by blast
  note w = C6_cancel_only_pending_or_open
         [where reply = ?r and confirmed = True and s = app_init and oid = "Val (Num 7)"
            and st = "Val ''failure''" and msg = "Val ''not cancellable''" and e = "''timeout''"]
  from w r nf have o: "orders (fst (handleCancel (Val (Num 7)) True ?r app_init)) = orders app_init"
    and q: "snd (handleCancel (Val (Num 7)) True ?r app_init) = [PostOrderCancel (Val (Num 7))]"
    and x: "notif (fst (handleCancel (Val (Num 7)) True (CancelThrew ''timeout'') app_init))
        = Some (''Cancel error: '' @ ''timeout'')"
    by blast+
  from w nf have "notif (fst (handleCancel (Val (Num 7)) True ?r app_init))
        = Some (''Cancel failed: '' @ text_of (or_str (Val ''not cancellable'') (Val ''Unknown'')))"
    by simp
  then have y: "notif (fst (handleCancel (Val (Num 7)) True ?r app_init))
        = Some ''Cancel failed: not cancellable''"
    unfolding m by simp
  from x have x': "notif (fst (handleCancel (Val (Num 7)) True (CancelThrew ''timeout'') app_init))
        = Some ''Cancel error: timeout''" by simp
  from p pa ps pu i t k dc nf r q y o x' show ?thesis by blast
qed

text \<open>
  C7: in both panels a declined confirmation sends nothing and leaves ledger and view
  as they were; the clear request is sent only after a confirmation, and a confirmed
  click does send it; after a confirmed, successful clear the ledger is empty and the
  trade list is fetched again, the view being what \<open>fetchTrades\<close> makes of the reply:
  with the reply of the cleared ledger the view holds no trades, and with no reply it
  keeps the trades it showed. A clear that throws changes nothing and fetches
  nothing. The PaperTrading panel takes every reply that does not throw for a
  success, and then shows the rows that the backend returns.
\<close>

theorem C7_clear_needs_confirmation:
  "clearTrades False outcome n sy = (sy, [ConfirmDialog clear_question])
   \<and> clearTrades2 False outcome n sy2 = (sy2, [ConfirmDialog clear_question])
   \<and> (PostPaperClear \<in> set (snd (clearTrades confirmed outcome n sy)) \<longrightarrow> confirmed)
   \<and> (PostPaperClear \<in> set (snd (clearTrades2 confirmed outcome n sy2)) \<longrightarrow> confirmed)
   \<and> GetPaperTrades \<in> set (snd (clearTrades True ClearDone n sy))
   \<and> GetPaperTrades \<in> set (snd (clearTrades2 True ClearDone n sy2))
   \<and> ledger (fst (clearTrades True ClearDone n sy)) = []
   \<and> pt_trades (panel (fst (clearTrades True ClearDone Delivered sy))) = []
   \<and> pt_pairedTrades (panel (fst (clearTrades True ClearDone Delivered sy))) = []
   \<and> pt_perSymbol (panel (fst (clearTrades True ClearDone Delivered sy))) = []
   \<and> pt_summary (panel (fst (clearTrades True ClearDone Delivered sy)))
       = Some \<lparr>realized_gross = 0\<rparr>
   \<and> pt2_trades (panel2 (fst (clearTrades2 True ClearDone Delivered sy2))) = []
   \<and> length (openTrades (pt2_trades (panel2 (fst (clearTrades2 True ClearDone Delivered sy2)))))
       + length (closedTrades (pt2_trades (panel2 (fst (clearTrades2 True ClearDone Delivered sy2)))))
       = 0
   \<and> PostPaperClear \<in> set (snd (clearTrades True outcome n sy))
   \<and> PostPaperClear \<in> set (snd (clearTrades2 True outcome n sy2))
   \<and> snd (clearTrades True ClearDone n sy)
       = [ConfirmDialog clear_question, PostPaperClear, AlertDialog ''Paper trades cleared'',
          GetPaperTrades]
   \<and> snd (clearTrades2 True ClearDone n sy2)
       = [ConfirmDialog clear_question, PostPaperClear, AlertDialog ''Paper trades cleared'',
          GetPaperTrades]
   \<and> panel (fst (clearTrades True ClearDone Delivered sy))
       = fetchTrades (Some (snapshot [])) (panel sy)
   \<and> panel (fst (clearTrades True ClearDone Lost sy)) = (panel sy)\<lparr>pt_loading := False\<rparr>
   \<and> (outcome \<noteq> ClearDone \<longrightarrow>
        fst (clearTrades True outcome n sy) = sy
        \<and> GetPaperTrades \<notin> set (snd (clearTrades True outcome n sy)))
   \<and> ledger2 (fst (clearTrades2 True ClearDone n sy2)) = []
   \<and> panel2 (fst (clearTrades2 True ClearDone Delivered sy2))
       = fetchTrades2 (Some (snapshot2 [])) (panel2 sy2)
   \<and> panel2 (fst (clearTrades2 True ClearDone Lost sy2)) = (panel2 sy2)\<lparr>pt2_loading := False\<rparr>
   \<and> ledger2 (fst (clearTrades2 True ClearRefused n sy2)) = ledger2 sy2
   \<and> pt2_trades (panel2 (fst (clearTrades2 True ClearRefused Delivered sy2))) = ledger2 sy2
   \<and> fst (clearTrades2 True (ClearThrew e) n sy2) = sy2
   \<and> GetPaperTrades \<notin> set (snd (clearTrades2 True (ClearThrew e) n sy2))
   \<and> pt2_trades (fetchTrades2 (Some d) v2) = or_empty (r_trades d)
   \<and> pt2_trades (fetchTrades2 None v2) = pt2_trades v2"
proof -
  have r: "replay [] = empty_book" by (simp add: replay_def)
  have a: "clearTrades False outcome n sy = (sy, [ConfirmDialog clear_question])"
    by (simp add: clearTrades_def)
  have b: "clearTrades2 False outcome n sy2 = (sy2, [ConfirmDialog clear_question])"
    by (simp add: clearTrades2_def)
  have c: "PostPaperClear \<in> set (snd (clearTrades confirmed outcome n sy)) \<longrightarrow> confirmed"
    by (simp add: clearTrades_def)
  have d: "PostPaperClear \<in> set (snd (clearTrades2 confirmed outcome n sy2)) \<longrightarrow> confirmed"
    by (simp add: clearTrades2_def)
  have e: "GetPaperTrades \<in> set (snd (clearTrades True ClearDone n sy))"
    "GetPaperTrades \<in> set (snd (clearTrades2 True ClearDone n sy2))"
    by (simp_all add: clearTrades_def clearTrades2_def)
  have f: "ledger (fst (clearTrades True ClearDone n sy)) = []"
    by (simp add: clearTrades_def refetch_def clear_def)
  have g: "panel (fst (clearTrades True ClearDone Delivered sy))
      = fetchTrades (Some (snapshot [])) (panel sy)"
    by (simp add: clearTrades_def refetch_def clear_def)
  have h: "pt_trades (fetchTrades (Some (snapshot [])) (panel sy)) = []"
    "pt_pairedTrades (fetchTrades (Some (snapshot [])) (panel sy)) = []"
    "pt_perSymbol (fetchTrades (Some (snapshot [])) (panel sy)) = []"
    "pt_summary (fetchTrades (Some (snapshot [])) (panel sy)) = Some \<lparr>realized_gross = 0\<rparr>"
    by (simp_all add: fetchTrades_def snapshot_def r empty_book_def open_positions_def)
  have i: "pt2_trades (panel2 (fst (clearTrades2 True ClearDone Delivered sy2))) = []"
    by (simp add: clearTrades2_def refetch2_def fetchTrades2_def snapshot2_def)
  have j: "length (openTrades (pt2_trades (panel2 (fst (clearTrades2 True ClearDone Delivered sy2)))))
       + length (closedTrades (pt2_trades (panel2 (fst (clearTrades2 True ClearDone Delivered sy2)))))
       = 0"
    unfolding i by (simp add: openTrades_def closedTrades_def)
  have k: "PostPaperClear \<in> set (snd (clearTrades True outcome n sy))"
    "PostPaperClear \<in> set (snd (clearTrades2 True outcome n sy2))"
    by (cases outcome; simp add: clearTrades_def clearTrades2_def)+
  have l: "snd (clearTrades True ClearDone n sy)
       = [ConfirmDialog clear_question, PostPaperClear, AlertDialog ''Paper trades cleared'',
          GetPaperTrades]"
    "snd (clearTrades2 True ClearDone n sy2)
       = [ConfirmDialog clear_question, PostPaperClear, AlertDialog ''Paper trades cleared'',
          GetPaperTrades]"
    by (simp_all add: clearTrades_def clearTrades2_def)
  have m: "panel (fst (clearTrades True ClearDone Lost sy)) = (panel sy)\<lparr>pt_loading := False\<rparr>"
    by (simp add: clearTrades_def refetch_def fetchTrades_def)
  have o: "outcome \<noteq> ClearDone \<longrightarrow>
        fst (clearTrades True outcome n sy) = sy
        \<and> GetPaperTrades \<notin> set (snd (clearTrades True outcome n sy))"
    by (cases outcome) (simp_all add: clearTrades_def)
  have p: "ledger2 (fst (clearTrades2 True ClearDone n sy2)) = []"
    "panel2 (fst (clearTrades2 True ClearDone Delivered sy2))
       = fetchTrades2 (Some (snapshot2 [])) (panel2 sy2)"
    "panel2 (fst (clearTrades2 True ClearDone Lost sy2)) = (panel2 sy2)\<lparr>pt2_loading := False\<rparr>"
    "ledger2 (fst (clearTrades2 True ClearRefused n sy2)) = ledger2 sy2"
    "pt2_trades (panel2 (fst (clearTrades2 True ClearRefused Delivered sy2))) = ledger2 sy2"
    "fst (clearTrades2 True (ClearThrew e) n sy2) = sy2"
    "GetPaperTrades \<notin> set (snd (clearTrades2 True (ClearThrew e) n sy2))"
    by (simp_all add: clearTrades2_def refetch2_def fetchTrades2_def snapshot2_def)
  have q: "pt2_trades (fetchTrades2 (Some d) v2) = or_empty (r_trades d)"
    "pt2_trades (fetchTrades2 None v2) = pt2_trades v2"
    by (simp_all add: fetchTrades2_def)
  have gh: "pt_trades (panel (fst (clearTrades True ClearDone Delivered sy))) = []"
    "pt_pairedTrades (panel (fst (clearTrades True ClearDone Delivered sy))) = []"
    "pt_perSymbol (panel (fst (clearTrades True ClearDone Delivered sy))) = []"
    "pt_summary (panel (fst (clearTrades True ClearDone Delivered sy)))
       = Some \<lparr>realized_gross = 0\<rparr>"
    unfolding g by (rule h)+
  show ?thesis
    by (intro conjI a b c d e f gh i j k l g m o p q)
qed

theorem C7_clear_needs_confirmation_witness:
  "PostPaperClear \<in> set (snd (clearTrades True ClearDone Delivered
        \<lparr>ledger = example_trades, panel = fetchTrades (Some (snapshot example_trades)) empty_panel\<rparr>))
   \<and> pt_trades (fetchTrades (Some (snapshot example_trades)) empty_panel) = example_trades
   \<and> pt_trades (panel (fst (clearTrades True ClearDone Delivered
        \<lparr>ledger = example_trades, panel = fetchTrades (Some (snapshot example_trades)) empty_panel\<rparr>)))
       = []
   \<and> fst (clearTrades False ClearDone Delivered
        \<lparr>ledger = example_trades, panel = fetchTrades (Some (snapshot example_trades)) empty_panel\<rparr>)
       = \<lparr>ledger = example_trades, panel = fetchTrades (Some (snapshot example_trades)) empty_panel\<rparr>
   \<and> ClearRefused \<noteq> ClearDone
   \<and> fst (clearTrades True ClearRefused Delivered
        \<lparr>ledger = example_trades, panel = fetchTrades (Some (snapshot example_trades)) empty_panel\<rparr>)
       = \<lparr>ledger = example_trades, panel = fetchTrades (Some (snapshot example_trades)) empty_panel\<rparr>
   \<and> pt2_trades (panel2 example_sys2) = example_rows
   \<and> PostPaperClear \<in> set (snd (clearTrades2 True ClearDone Delivered example_sys2))
   \<and> pt2_trades (panel2 (fst (clearTrades2 True ClearDone Delivered example_sys2))) = []
   \<and> ledger2 (fst (clearTrades2 True ClearDone Delivered example_sys2)) = []
   \<and> pt2_trades (panel2 (fst (clearTrades2 True ClearDone Lost example_sys2))) = example_rows
   \<and> pt2_trades (panel2 (fst (clearTrades2 True ClearRefused Delivered example_sys2)))
       = example_rows
   \<and> fst (clearTrades2 False ClearDone Delivered example_sys2) = example_sys2"
proof -
  let ?sy = "\<lparr>ledger = example_trades,
              panel = fetchTrades (Some (snapshot example_trades)) empty_panel\<rparr>"
  have b: "pt_trades (fetchTrades (Some (snapshot example_trades)) empty_panel) = example_trades"
    by (simp add: fetchTrades_def snapshot_def)
  have x: "ClearRefused \<noteq> ClearDone" by simp
  have y: "pt2_trades (panel2 example_sys2) = example_rows" "ledger2 example_sys2 = example_rows"
    by (simp_all add: example_sys2_def)
  note t = C7_clear_needs_confirmation
             [where confirmed = True and outcome = ClearDone and n = Delivered and sy = ?sy
                and ?sy2.0 = example_sys2]
  note u = C7_clear_needs_confirmation
             [where confirmed = True and outcome = ClearRefused and n = Delivered and sy = ?sy
                and ?sy2.0 = example_sys2]
  note v = C7_clear_needs_confirmation
             [where confirmed = True and outcome = ClearDone and n = Lost
                and ?sy2.0 = example_sys2]
  from t have a: "PostPaperClear \<in> set (snd (clearTrades True ClearDone Delivered ?sy))"
    by blast
  from t have c: "pt_trades (panel (fst (clearTrades True ClearDone Delivered ?sy))) = []"
    by blast
  from t have "clearTrades False ClearDone Delivered ?sy = (?sy, [ConfirmDialog clear_question])"
    by blast
  then have d: "fst (clearTrades False ClearDone Delivered ?sy) = ?sy" by simp
  from u x have e: "fst (clearTrades True ClearRefused Delivered ?sy) = ?sy" by blast
  from t have f: "PostPaperClear \<in> set (snd (clearTrades2 True ClearDone Delivered example_sys2))"
    by blast
  from t have g: "pt2_trades (panel2 (fst (clearTrades2 True ClearDone Delivered example_sys2))) = []"
    by blast
  from t have h: "ledger2 (fst (clearTrades2 True ClearDone Delivered example_sys2)) = []"
    by blast
  from v have "panel2 (fst (clearTrades2 True ClearDone Lost example_sys2))
      = (panel2 example_sys2)\<lparr>pt2_loading := False\<rparr>"
    by blast
  then have i: "pt2_trades (panel2 (fst (clearTrades2 True ClearDone Lost example_sys2)))
      = example_rows"
    using y by simp
  from t have "pt2_trades (panel2 (fst (clearTrades2 True ClearRefused Delivered example_sys2)))
      = ledger2 example_sys2"
    by blast
  then have j: "pt2_trades (panel2 (fst (clearTrades2 True ClearRefused Delivered example_sys2)))
      = example_rows"
    using y by simp
  from t have "clearTrades2 False ClearDone Delivered example_sys2
      = (example_sys2, [ConfirmDialog clear_question])"
    by blast
  then have k: "fst (clearTrades2 False ClearDone Delivered example_sys2) = example_sys2"
    by simp
  from a b c d x e y(1) f g h i j k show ?thesis by blast
qed

text \<open>
  C8 (the code at the failing input): with order type MARKET and a price of 105 left
  in the hidden price field, the new handler submits price 105; the old handler
  submits 0.
\<close>

theorem C8_market_order_carries_entered_price:
  "map_option pp_price (handlePlaceOrder rr form_market_after_limit) = Some 105
   \<and> map_option pp_order_type (handlePlaceOrder rr form_market_after_limit) = Some ''MARKET''
   \<and> map_option pp_price (handlePlaceOrder_old form_market_after_limit) = Some 0"
  by (simp add: handlePlaceOrder_def handlePlaceOrder_old_def form_market_after_limit_def
      coalesce_def nullish_def or_zero_def)

text \<open>
  C9 (as stated, refuted): for an instrument that carries its id under \<open>security_id\<close>
  only, the new handler sends that id and the old handler sends none.
\<close>

theorem C9_security_id_fallback_counterexample:
  "handlePlaceOrder ResolveFailed form_security_id_only
     \<noteq> handlePlaceOrder_old form_security_id_only
   \<and> map_option pp_security_id (handlePlaceOrder ResolveFailed form_security_id_only)
       = Some (Val (Str ''11536''))
   \<and> map_option pp_security_id (handlePlaceOrder_old form_security_id_only) = Some Undefined"
  by (simp add: handlePlaceOrder_def handlePlaceOrder_old_def form_security_id_only_def
      coalesce_def nullish_def or_zero_def)

text \<open>
  C9 (amended): when the selected instrument, if any, carries a non-empty
  \<open>securityId\<close>, and the order type is LIMIT or the price field is empty or zero, the
  old and the new handler build the same request parameters.
\<close>

theorem C9_handlers_agree_on_limit_orders:
  assumes "\<forall>inst. selectedInstrument f = Some inst \<longrightarrow> \<not> falsy (securityId inst)"
    and "orderType f = ''LIMIT'' \<or> Number (price f) = 0"
  shows "handlePlaceOrder rr f = handlePlaceOrder_old f"
proof (cases "selectedInstrument f")
  case None
  then show ?thesis by (simp add: handlePlaceOrder_def handlePlaceOrder_old_def)
next
  case (Some inst)
  then have nf: "\<not> falsy (securityId inst)" using assms(1) by simp
  then have "\<not> nullish (securityId inst)"
    by (cases "securityId inst") (auto simp: nullish_def)
  then have sid: "coalesce (securityId inst) (security_id inst) = securityId inst"
    by (simp add: coalesce_def)
  have pr: "or_zero (Number (price f))
      = (if orderType f = ''LIMIT'' then parseFloat_text (price f) else 0)"
    using assms(2) parse_agree [of "price f"] by (auto simp: or_zero_def)
  show ?thesis
    unfolding handlePlaceOrder_def handlePlaceOrder_old_def Some
    using sid nf pr by (simp add: Let_def)
qed

theorem C9_handlers_agree_on_limit_orders_witness:
  "orderType form_limit = ''LIMIT''
   \<and> handlePlaceOrder ResolveFailed form_limit = handlePlaceOrder_old form_limit
   \<and> map_option pp_price (handlePlaceOrder_old form_limit) = Some 3500"
proof -
  have a: "\<forall>inst. selectedInstrument form_limit = Some inst \<longrightarrow> \<not> falsy (securityId inst)"
    by (simp add: form_limit_def)
  have b: "orderType form_limit = ''LIMIT''" by (simp add: form_limit_def)
  have c: "map_option pp_price (handlePlaceOrder_old form_limit) = Some 3500"
    by (simp add: handlePlaceOrder_old_def form_limit_def)
  from C9_handlers_agree_on_limit_orders [OF a, of ResolveFailed] b c show ?thesis by blast
qed

text \<open>
  C10: every trade of a \<open>/paper/trades\<close> response lands in exactly one of the open
  and the closed list, so the two counts add up to the number of trades.
\<close>

theorem C10_open_closed_partition:
  "length (openTrades trades) + length (closedTrades trades) = length trades
   \<and> set (openTrades trades) \<union> set (closedTrades trades) = set trades
   \<and> set (openTrades trades) \<inter> set (closedTrades trades) = {}"
proof -
  have c: "closedTrades trades =
      filter (\<lambda>t. \<not> (exit_price t = Null \<or> exit_price t = Undefined)) trades"
    by (simp add: closedTrades_def)
  have "length (openTrades trades) + length (closedTrades trades) = length trades"
    unfolding c openTrades_def by (rule sum_length_filter_compl)
  moreover have "set (openTrades trades) \<union> set (closedTrades trades) = set trades"
    unfolding c openTrades_def by auto
  moreover have "set (openTrades trades) \<inter> set (closedTrades trades) = {}"
    unfolding c openTrades_def by auto
  ultimately show ?thesis by simp
qed

end
